theory Spec2Isabelle
  imports Main
begin

section \<open>The lead-submission handler of functions/api/lead.ts\<close>

text \<open>
  The development embeds the Cloudflare Pages Function \<open>onRequestPost\<close> of
  \<open>functions/api/lead.ts\<close> (the first, content-negotiating variant of the file) and its
  helpers \<open>resolveToEmail\<close>, \<open>buildTextBody\<close>, \<open>verifyTurnstileSafe\<close>,
  \<open>sendWithResendSafe\<close> and \<open>escapeHtml\<close>.

  The two outbound \<open>fetch\<close> calls are answered by an explicit world (one function per
  provider endpoint), and the handler returns, next to its response, the list of the
  outbound calls it made, in order.
\<close>

subsection \<open>JavaScript strings\<close>

text \<open>
  A string is a \<open>char list\<close>; a character stands for a UTF-16 code unit below 256.
  On that range \<open>String.prototype.trim\<close> removes TAB, LF, VT, FF, CR, SPACE and
  NO-BREAK SPACE, and \<open>toLowerCase\<close> adds 32 to A..Z and to the upper-case letters
  of the Latin-1 block (192..222 without the multiplication sign 215).
\<close>

definition isWhiteSpace :: "char \<Rightarrow> bool" where
  "isWhiteSpace c = (of_char c \<in> {9, 10, 11, 12, 13, 32, 160 :: nat})"

definition trim :: "string \<Rightarrow> string" where
  "trim s = rev (dropWhile isWhiteSpace (rev (dropWhile isWhiteSpace s)))"

definition isUpper :: "char \<Rightarrow> bool" where
  "isUpper c = (let n = (of_char c :: nat)
                in (65 \<le> n \<and> n \<le> 90) \<or> (192 \<le> n \<and> n \<le> 222 \<and> n \<noteq> 215))"

definition lowerChar :: "char \<Rightarrow> char" where
  "lowerChar c = (if isUpper c then char_of (of_char c + 32 :: nat) else c)"

definition toLowerCase :: "string \<Rightarrow> string" where
  "toLowerCase s = map lowerChar s"

text \<open>\<open>hay.includes(needle)\<close>: the needle occurs as a contiguous substring.\<close>

fun startsWith :: "string \<Rightarrow> string \<Rightarrow> bool" where
  "startsWith hay [] = True"
| "startsWith [] (n # ns) = False"
| "startsWith (h # hs) (n # ns) = (h = n \<and> startsWith hs ns)"

fun includesStr :: "string \<Rightarrow> string \<Rightarrow> bool" where
  "includesStr [] needle = (needle = [])"
| "includesStr (h # hs) needle = (startsWith (h # hs) needle \<or> includesStr hs needle)"

text \<open>\<open>lines.join(sep)\<close>.\<close>

fun join :: "string \<Rightarrow> string list \<Rightarrow> string" where
  "join sep [] = []"
| "join sep [x] = x"
| "join sep (x # y # ys) = x @ sep @ join sep (y # ys)"

text \<open>
  \<open>a || b\<close> on operands that are a string, \<open>undefined\<close> or \<open>null\<close> (\<open>None\<close>): the
  empty string is falsy like \<open>undefined\<close>. \<open>orEmpty\<close> is \<open>x || ""\<close> and \<open>orText\<close> is
  \<open>x || "literal"\<close>.
\<close>

definition configured :: "string option \<Rightarrow> bool" where
  "configured v = (case v of Some s \<Rightarrow> s \<noteq> [] | None \<Rightarrow> False)"

definition orElse :: "string option \<Rightarrow> string option \<Rightarrow> string option" where
  "orElse a b = (if configured a then a else b)"

definition orEmpty :: "string option \<Rightarrow> string" where
  "orEmpty v = (case v of Some s \<Rightarrow> s | None \<Rightarrow> [])"

definition orText :: "string \<Rightarrow> string \<Rightarrow> string" where
  "orText s dflt = (if s \<noteq> [] then s else dflt)"

subsection \<open>Configuration and recipient resolution\<close>

text \<open>\<open>env: Record<string, string | undefined>\<close>.\<close>

type_synonym env = "string \<Rightarrow> string option"

definition resolveToEmail :: "string \<Rightarrow> env \<Rightarrow> string option" where
  "resolveToEmail formType env =
     (let t = toLowerCase formType in
      if t = ''early_offer'' then
        orElse (env ''TO_EARLY_OFFER'') (orElse (env ''TO_DEFAULT'') None)
      else if t = ''fitting'' then
        orElse (env ''TO_BOOK_FITTING'') (orElse (env ''TO_DEFAULT'') None)
      else if t = ''events'' then
        orElse (env ''TO_EVENT_FLORAL'') (orElse (env ''TO_DEFAULT'') None)
      else if t = ''reviews'' then
        orElse (env ''TO_REVIEWS'')
          (orElse (env ''TO_FEEDBACK'') (orElse (env ''TO_DEFAULT'') None))
      else orElse (env ''TO_DEFAULT'') None)"

text \<open>The categories that have a branch of their own in \<open>resolveToEmail\<close>.\<close>

definition recognizedCategories :: "string list" where
  "recognizedCategories = [''early_offer'', ''fitting'', ''events'', ''reviews'']"

text \<open>
  The category-specific override of a recognized category: what its branch of
  \<open>resolveToEmail\<close> reads before \<open>TO_DEFAULT\<close>. The reviews branch reads two slots,
  \<open>TO_REVIEWS\<close> and then \<open>TO_FEEDBACK\<close>.
\<close>

definition categoryOverride :: "string \<Rightarrow> env \<Rightarrow> string option" where
  "categoryOverride t env =
     (if t = ''early_offer'' then orElse (env ''TO_EARLY_OFFER'') None
      else if t = ''fitting'' then orElse (env ''TO_BOOK_FITTING'') None
      else if t = ''events'' then orElse (env ''TO_EVENT_FLORAL'') None
      else if t = ''reviews'' then orElse (env ''TO_REVIEWS'') (orElse (env ''TO_FEEDBACK'') None)
      else None)"

subsection \<open>JSON values\<close>

text \<open>
  A JSON value, as \<open>JSON.parse\<close> yields it and as \<open>JSON.stringify\<close> takes it. An object
  lists its members in order; reading a member takes the last one of that name, as
  \<open>JSON.parse\<close> does with a repeated name. A member of anything but an object is
  \<open>undefined\<close> (\<open>None\<close>).
\<close>

datatype jvalue =
  JNull | JBool bool | JNum int | JStr string | JArr "jvalue list"
  | JObj "(string \<times> jvalue) list"

fun member :: "jvalue \<Rightarrow> string \<Rightarrow> jvalue option" where
  "member (JObj kvs) k = map_of (rev kvs) k"
| "member JNull k = None"
| "member (JBool b) k = None"
| "member (JNum n) k = None"
| "member (JStr s) k = None"
| "member (JArr xs) k = None"

text \<open>JavaScript truthiness of a parsed JSON value (\<open>!data\<close>, \<open>parsed || raw\<close>).\<close>

fun truthy :: "jvalue \<Rightarrow> bool" where
  "truthy JNull = False"
| "truthy (JBool b) = b"
| "truthy (JNum n) = (n \<noteq> 0)"
| "truthy (JStr s) = (s \<noteq> [])"
| "truthy (JArr xs) = True"
| "truthy (JObj kvs) = True"

subsection \<open>Requests, responses and the outside world\<close>

text \<open>
  \<open>header\<close> is \<open>request.headers.get\<close>; \<open>formData\<close> is the entry list that
  \<open>await req.formData()\<close> yields for a URL-encoded body, in the order of the body, and
  \<open>None\<close> when that call throws. \<open>ctx_env\<close> is \<open>context.env\<close>; the parameter
  \<open>context\<close> has type \<open>any\<close>, and \<open>None\<close> is a context without that property.
\<close>

type_synonym formdata = "(string \<times> string) list"

record request =
  header :: "string \<Rightarrow> string option"
  formData :: "formdata option"

record eventContext =
  ctx_request :: request
  ctx_env :: "env option"

datatype body = NoBody | JsonBody jvalue | HtmlBody string

datatype response = Response (status: nat) (headers: "(string \<times> string) list") (body: body)

text \<open>
  The answer to one \<open>fetch\<close>: it throws (with the text \<open>String(e?.message || e)\<close> of
  what it threw), or it yields a response with a status, the text of the body, and what
  \<open>JSON.parse\<close> makes of that text (\<open>None\<close> when it throws).
\<close>

datatype fetchResult = NetworkError string | Fetched nat string "jvalue option"

definition respOk :: "nat \<Rightarrow> bool" where
  "respOk st = (200 \<le> st \<and> st \<le> 299)"

datatype siteverifyRequest =
  SiteverifyRequest (sv_secret: string) (sv_response: string) (sv_remoteip: "string option")

text \<open>
  The three auto-reply bodies and two of their subjects are fixed templates with
  characters outside the range of \<open>char\<close>; such a text is represented by its template and
  the values interpolated into it, in order of occurrence.
\<close>

datatype templateId = EarlyOfferText | FittingSubject | FittingText | EventsSubject | EventsText

datatype mailText = Plain string | Template templateId "string list"

datatype emailsRequest =
  EmailsRequest (authorization: string) (mailFrom: string) (mailTo: "string list")
    (mailSubject: mailText) (mailBody: mailText) (mailHeaders: "(string \<times> string) list option")

datatype outbound = VerifyCall siteverifyRequest | SendCall emailsRequest

record world =
  siteverify :: "siteverifyRequest \<Rightarrow> fetchResult"
  emails :: "emailsRequest \<Rightarrow> fetchResult"

record safeResult =
  ok :: bool
  details :: "jvalue option"

text \<open>A value that may be \<open>undefined\<close>, interpolated into a string.\<close>

definition asString :: "string option \<Rightarrow> string" where
  "asString v = (case v of Some s \<Rightarrow> s | None \<Rightarrow> ''undefined'')"

subsection \<open>Response helpers (lines 8 to 32, 474 to 481)\<close>

definition replaceAll :: "char \<Rightarrow> string \<Rightarrow> string \<Rightarrow> string" where
  "replaceAll c rep s = concat (map (\<lambda>x. if x = c then rep else [x]) s)"

definition escapeHtml :: "string \<Rightarrow> string" where
  \<open>escapeHtml str =
     replaceAll (CHR 0x27) ''&#039;''
       (replaceAll (CHR 0x22) ''&quot;''
         (replaceAll CHR ''>'' ''&gt;''
           (replaceAll CHR ''<'' ''&lt;''
             (replaceAll CHR ''&'' ''&amp;'' str))))\<close>

definition json :: "nat \<Rightarrow> jvalue \<Rightarrow> response" where
  "json st payload =
     Response st [(''Content-Type'', ''application/json; charset=utf-8'')] (JsonBody payload)"

definition html :: "nat \<Rightarrow> string \<Rightarrow> response" where
  \<open>html st message =
     Response st [(''Content-Type'', ''text/html; charset=utf-8'')]
       (HtmlBody
         (''<!doctype html><html><head><meta charset="utf-8"/><meta name="viewport" content="width=device-width,initial-scale=1"/></head><body style="font-family:system-ui; padding:24px;">''
          @ [CHR 0x0A] @ ''        <h2>'' @ escapeHtml message @ ''</h2>''
          @ [CHR 0x0A] @ ''        <p><a href="/" style="color:#111;">Return to site</a></p>''
          @ [CHR 0x0A] @ ''      </body></html>''))\<close>

definition wantsJson :: "eventContext \<Rightarrow> bool" where
  "wantsJson ctx =
     includesStr (orEmpty (header (ctx_request ctx) ''Accept'')) ''application/json''"

definition respond :: "bool \<Rightarrow> nat \<Rightarrow> jvalue \<Rightarrow> string \<Rightarrow> response" where
  "respond wj st payload fallbackMsg = (if wj then json st payload else html st fallbackMsg)"

text \<open>An object member whose value may be \<open>undefined\<close>: \<open>JSON.stringify\<close> leaves it out.\<close>

definition optMember :: "string \<Rightarrow> jvalue option \<Rightarrow> (string \<times> jvalue) list" where
  "optMember k v = (case v of Some j \<Rightarrow> [(k, j)] | None \<Rightarrow> [])"

subsection \<open>Field extraction (lines 58 to 69)\<close>

text \<open>\<open>form.get(name)\<close>: the value of the first entry of that name, or \<open>null\<close>.\<close>

fun formGet :: "formdata \<Rightarrow> string \<Rightarrow> string option" where
  "formGet [] k = None"
| "formGet ((k', v) # es) k = (if k' = k then Some v else formGet es k)"

text \<open>\<open>String(form.get(name) || "").trim()\<close>.\<close>

definition field :: "formdata \<Rightarrow> string \<Rightarrow> string" where
  "field form k = trim (orEmpty (formGet form k))"

record fields =
  formType :: string
  email :: string
  firstName :: string
  lastName :: string
  fullName :: string
  name :: string
  phone :: string
  message :: string
  turnstileToken :: string
  rating :: string
  source :: string

definition extractFields :: "formdata \<Rightarrow> fields" where
  "extractFields form =
     \<lparr> formType = toLowerCase (field form ''formType''),
       email = toLowerCase (field form ''email''),
       firstName = field form ''firstName'',
       lastName = field form ''lastName'',
       fullName = field form ''fullName'',
       name = field form ''name'',
       phone = field form ''phone'',
       message = field form ''message'',
       turnstileToken = field form ''cf-turnstile-response'',
       rating = field form ''rating'',
       source = field form ''source'' \<rparr>"

subsection \<open>parseInt\<close>

text \<open>
  \<open>parseInt(string)\<close> without a radix: leading white space is skipped, a sign is read,
  a prefix \<open>0x\<close> or \<open>0X\<close> selects radix 16, and the longest run of digits of the radix
  is the number; no digit at all is \<open>NaN\<close> (\<open>None\<close>). The result here is the exact integer;
  JavaScript rounds it to a double, which does not change how it compares with 4.
\<close>

definition digitValue :: "char \<Rightarrow> nat" where
  "digitValue c =
     (let n = (of_char c :: nat)
      in if 48 \<le> n \<and> n \<le> 57 then n - 48
         else if 97 \<le> n \<and> n \<le> 102 then n - 87
         else if 65 \<le> n \<and> n \<le> 70 then n - 55
         else 99)"

definition isRadixDigit :: "nat \<Rightarrow> char \<Rightarrow> bool" where
  "isRadixDigit R c = (digitValue c < R)"

definition parseInt :: "string \<Rightarrow> int option" where
  "parseInt str =
     (let S = dropWhile isWhiteSpace str;
          neg = startsWith S ''-'';
          S1 = (if startsWith S ''-'' \<or> startsWith S ''+'' then tl S else S);
          hex = (startsWith S1 ''0x'' \<or> startsWith S1 ''0X'');
          R = (if hex then 16 else 10);
          S2 = (if hex then drop 2 S1 else S1);
          Z = takeWhile (isRadixDigit R) S2
      in if Z = [] then None
         else Some ((if neg then - 1 else 1)
                    * int (foldl (\<lambda>acc c. acc * R + digitValue c) 0 Z)))"

subsection \<open>buildTextBody (lines 346 to 387)\<close>

definition optOrText :: "string option \<Rightarrow> string \<Rightarrow> string" where
  "optOrText v dflt = (if configured v then orEmpty v else dflt)"

record textInput =
  in_formType :: string
  in_email :: string
  in_firstName :: string
  in_lastName :: string
  in_phone :: string
  in_message :: string
  in_ip :: "string option"
  in_userAgent :: string
  in_referer :: string
  in_rating :: "string option"
  in_source :: "string option"
  in_name :: "string option"

definition buildTextBody :: "textInput \<Rightarrow> string" where
  "buildTextBody input =
     join [CHR 0x0A]
       ([ ''Form Type: '' @ in_formType input,
          ''Email: '' @ in_email input,
          ''Name: '' @ orText (join '' '' (filter (\<lambda>s. s \<noteq> [])
                                  [in_firstName input, in_lastName input])) ''(not provided)'',
          ''Phone: '' @ orText (in_phone input) ''(not provided)'' ]
        @ (if in_formType input = ''reviews'' \<and> configured (in_rating input) then
             [ ''Rating: '' @ asString (in_rating input) @ ''/5'' ]
             @ (if configured (in_source input)
                then [ ''Review Source: '' @ asString (in_source input) ] else [])
           else [])
        @ [ [],
            ''Message:'',
            orText (in_message input) ''(none)'',
            [],
            ''Meta:'',
            ''IP: '' @ optOrText (in_ip input) ''(unknown)'',
            ''User-Agent: '' @ orText (in_userAgent input) ''(unknown)'',
            ''Referer: '' @ orText (in_referer input) ''(unknown)'' ])"

subsection \<open>verifyTurnstileSafe (lines 389 to 420)\<close>

record turnstileArgs =
  token :: string
  secretKey :: string
  ip :: "string option"

definition turnstileRequest :: "turnstileArgs \<Rightarrow> siteverifyRequest" where
  "turnstileRequest args =
     SiteverifyRequest (secretKey args) (token args) (orElse (ip args) None)"

definition verifyTurnstileSafe ::
  "(siteverifyRequest \<Rightarrow> fetchResult) \<Rightarrow> turnstileArgs \<Rightarrow> safeResult" where
  "verifyTurnstileSafe fetch args =
     (case fetch (turnstileRequest args) of
        NetworkError m \<Rightarrow> \<lparr> ok = False, details = Some (JStr m) \<rparr>
      | Fetched st raw parsed \<Rightarrow>
          (let data = (case parsed of Some j \<Rightarrow> j | None \<Rightarrow> JNull)
           in if \<not> respOk st then
                \<lparr> ok = False,
                  details = Some (JObj [(''status'', JNum (int st)), (''body'', data)]) \<rparr>
              else if \<not> truthy data \<or> member data ''success'' \<noteq> Some (JBool True) then
                \<lparr> ok = False, details = Some data \<rparr>
              else \<lparr> ok = True, details = None \<rparr>))"

subsection \<open>sendWithResendSafe (lines 422 to 472)\<close>

record resendArgs =
  apiKey :: string
  fromEmail :: string
  fromName :: "string option"
  toAddr :: string
  subjectArg :: mailText
  textArg :: mailText
  isTransactional :: bool

definition emailsRequest :: "resendArgs \<Rightarrow> emailsRequest" where
  "emailsRequest args =
     EmailsRequest (''Bearer '' @ apiKey args)
       (if configured (fromName args)
        then asString (fromName args) @ '' <'' @ fromEmail args @ ''>''
        else fromEmail args)
       [toAddr args] (subjectArg args) (textArg args)
       (if isTransactional args then
          Some [ (''List-Unsubscribe'',
                  ''<mailto:unsubscribe@verosboutiqueky.com?subject=unsubscribe>''),
                 (''X-Priority'', ''3'') ]
        else None)"

definition sendWithResendSafe ::
  "(emailsRequest \<Rightarrow> fetchResult) \<Rightarrow> resendArgs \<Rightarrow> safeResult" where
  "sendWithResendSafe fetch args =
     (case fetch (emailsRequest args) of
        NetworkError m \<Rightarrow> \<lparr> ok = False, details = Some (JStr m) \<rparr>
      | Fetched st raw p \<Rightarrow>
          (let parsed = (if raw \<noteq> [] then (case p of Some j \<Rightarrow> j | None \<Rightarrow> JNull)
                         else JNull)
           in if \<not> respOk st then
                \<lparr> ok = False,
                  details = Some (JObj [ (''status'', JNum (int st)),
                                         (''body'', if truthy parsed then parsed else JStr raw) ]) \<rparr>
              else \<lparr> ok = True, details = Some parsed \<rparr>))"

subsection \<open>onRequestPost (lines 6 to 327)\<close>

definition required :: "string list" where
  "required = [''TURNSTILE_SECRET_KEY'', ''RESEND_API_KEY'', ''RESEND_FROM_EMAIL'']"

text \<open>The payload \<open>{ ok: false, error: code, ... }\<close> of an error response.\<close>

definition errorBody :: "string \<Rightarrow> (string \<times> jvalue) list \<Rightarrow> jvalue" where
  "errorBody code extra = JObj ([(''ok'', JBool False), (''error'', JStr code)] @ extra)"

text \<open>Line 76: \<open>formType === "reviews" && rating && parseInt(rating) >= 4\<close>.\<close>

definition isHighRating :: "fields \<Rightarrow> bool" where
  "isHighRating f =
     (formType f = ''reviews'' \<and> rating f \<noteq> []
      \<and> (case parseInt (rating f) of Some n \<Rightarrow> 4 \<le> n | None \<Rightarrow> False))"

text \<open>
  Lines 71 to 88, the checks on the extracted fields: \<open>Some\<close> is the response of an early
  return, \<open>None\<close> lets the request go on.
\<close>

definition validate :: "bool \<Rightarrow> fields \<Rightarrow> response option" where
  "validate wj f =
     (if formType f = [] then
        Some (respond wj 400 (errorBody ''missing_formtype'' []) ''Missing form type.'')
      else if \<not> isHighRating f \<and> email f = [] then
        Some (respond wj 400 (errorBody ''missing_email'' []) ''Please enter an email.'')
      else if \<not> isHighRating f \<and> turnstileToken f = [] then
        Some (respond wj 400 (errorBody ''missing_turnstile'' [])
                ''Captcha missing. Please refresh and try again.'')
      else None)"

text \<open>Lines 155 to 311: the arguments of the three auto-replies.\<close>

definition earlyOfferReply :: "env \<Rightarrow> fields \<Rightarrow> resendArgs" where
  "earlyOfferReply env f =
     \<lparr> apiKey = asString (env ''RESEND_API_KEY''),
       fromEmail = asString (env ''RESEND_FROM_EMAIL''),
       fromName = env ''RESEND_FROM_NAME'',
       toAddr = email f,
       subjectArg = Plain (''Your Exclusive Early Offer - Vero'' @ [CHR 0x27] @ ''s Boutique''),
       textArg = Template EarlyOfferText
                   [if firstName f \<noteq> [] then '' '' @ firstName f else []],
       isTransactional = True \<rparr>"

definition slot :: "formdata \<Rightarrow> string \<Rightarrow> string \<Rightarrow> string list" where
  "slot form d t =
     (if configured (formGet form d)
      then [orEmpty (formGet form d) @ '' at '' @ optOrText (formGet form t) ''(no time)'']
      else [])"

definition preferredDates :: "formdata \<Rightarrow> string list" where
  "preferredDates form =
     slot form ''preferredDate1'' ''preferredTime1''
     @ slot form ''preferredDate2'' ''preferredTime2''
     @ slot form ''preferredDate3'' ''preferredTime3''"

text \<open>The rendering of \<open>preferredDates\<close>, which has at most three entries.\<close>

definition optionLines :: "string list \<Rightarrow> string" where
  "optionLines ds =
     (if ds \<noteq> [] then
        join [CHR 0x0A]
          (map (\<lambda>(i, d). ''  Option '' @ i @ '': '' @ d) (zip [''1'', ''2'', ''3''] ds))
      else ''  (not provided)'')"

definition fittingReply :: "env \<Rightarrow> formdata \<Rightarrow> fields \<Rightarrow> resendArgs" where
  "fittingReply env form f =
     \<lparr> apiKey = asString (env ''RESEND_API_KEY''),
       fromEmail = asString (env ''RESEND_FROM_EMAIL''),
       fromName = env ''RESEND_FROM_NAME'',
       toAddr = email f,
       subjectArg = Template FittingSubject [],
       textArg = Template FittingText
                   [ orText (fullName f) ''there'',
                     orText (fullName f) ''(not provided)'',
                     email f,
                     orText (phone f) ''(not provided)'',
                     optOrText (formGet form ''eventType'') ''(not specified)'',
                     optionLines (preferredDates form),
                     orText (message f) ''(none)'' ],
       isTransactional = True \<rparr>"

definition eventsReply :: "env \<Rightarrow> fields \<Rightarrow> resendArgs" where
  "eventsReply env f =
     \<lparr> apiKey = asString (env ''RESEND_API_KEY''),
       fromEmail = asString (env ''RESEND_FROM_EMAIL''),
       fromName = env ''RESEND_FROM_NAME'',
       toAddr = email f,
       subjectArg = Template EventsSubject [],
       textArg = Template EventsText
                   [ orText (name f) ''there'',
                     orText (name f) ''(not provided)'',
                     email f,
                     orText (phone f) ''(not provided)'',
                     orText (message f) ''(none)'' ],
       isTransactional = True \<rparr>"

text \<open>
  One auto-reply: the call is made and both branches of \<open>if (!autoReply.ok)\<close> do
  nothing more.
\<close>

definition autoReply :: "world \<Rightarrow> resendArgs \<Rightarrow> outbound list" where
  "autoReply w args =
     (let reply = sendWithResendSafe (emails w) args
      in if \<not> ok reply then [SendCall (emailsRequest args)]
         else [SendCall (emailsRequest args)])"

definition repliesStage :: "world \<Rightarrow> env \<Rightarrow> formdata \<Rightarrow> fields \<Rightarrow> outbound list" where
  "repliesStage w env form f =
     (if formType f = ''early_offer'' then autoReply w (earlyOfferReply env f) else [])
     @ (if formType f = ''fitting'' then autoReply w (fittingReply env form f) else [])
     @ (if formType f = ''events'' then autoReply w (eventsReply env f) else [])"

text \<open>Lines 313 to 319.\<close>

definition successResponse :: response where
  "successResponse = Response 303 [(''Location'', ''/?submitted=success'')] NoBody"

text \<open>Lines 120 to 145: the arguments of the primary notification.\<close>

definition notification ::
  "request \<Rightarrow> env \<Rightarrow> fields \<Rightarrow> string option \<Rightarrow> string \<Rightarrow> resendArgs" where
  "notification req env f ipAddr dest =
     \<lparr> apiKey = asString (env ''RESEND_API_KEY''),
       fromEmail = asString (env ''RESEND_FROM_EMAIL''),
       fromName = env ''RESEND_FROM_NAME'',
       toAddr = dest,
       subjectArg = Plain (if formType f = ''reviews'' then ''Review message''
                           else ''['' @ formType f @ ''] New Lead from '' @ email f),
       textArg = Plain (buildTextBody
                   \<lparr> in_formType = formType f,
                     in_email = email f,
                     in_firstName = firstName f,
                     in_lastName = lastName f,
                     in_phone = phone f,
                     in_message = message f,
                     in_ip = ipAddr,
                     in_userAgent = orEmpty (header req ''User-Agent''),
                     in_referer = orEmpty (header req ''Referer''),
                     in_rating = orElse (Some (rating f)) None,
                     in_source = orElse (Some (source f)) None,
                     in_name = orElse (Some (name f)) None \<rparr>),
       isTransactional = False \<rparr>"

text \<open>Lines 110 to 319: routing, the primary dispatch, the auto-replies, success.\<close>

definition dispatchStage ::
  "world \<Rightarrow> bool \<Rightarrow> request \<Rightarrow> env \<Rightarrow> formdata \<Rightarrow> fields \<Rightarrow> string option
     \<Rightarrow> outbound list \<Rightarrow> response \<times> outbound list" where
  "dispatchStage w wj req env form f ipAddr calls =
     (let dest = resolveToEmail (formType f) env
      in if \<not> configured dest then
           (respond wj 400 (errorBody ''unknown_formtype'' [(''formType'', JStr (formType f))])
              ''Unknown form type.'', calls)
         else
           (let args = notification req env f ipAddr (orEmpty dest);
                send = sendWithResendSafe (emails w) args;
                calls' = calls @ [SendCall (emailsRequest args)]
            in if \<not> ok send then
                 (respond wj 502 (errorBody ''resend_failed'' (optMember ''details'' (details send)))
                    ''Message failed to send. Please try again.'', calls')
               else (successResponse, calls' @ repliesStage w env form f)))"

text \<open>Line 91: \<open>req.headers.get("CF-Connecting-IP") || undefined\<close>.\<close>

definition clientIp :: "request \<Rightarrow> string option" where
  "clientIp req = orElse (header req ''CF-Connecting-IP'') None"

text \<open>Lines 95 to 99: the arguments of the verification.\<close>

definition challengeArgs :: "request \<Rightarrow> env \<Rightarrow> fields \<Rightarrow> turnstileArgs" where
  "challengeArgs req env f =
     \<lparr> token = turnstileToken f,
       secretKey = asString (env ''TURNSTILE_SECRET_KEY''),
       ip = clientIp req \<rparr>"

text \<open>Lines 90 to 108: the challenge is verified when a token is there.\<close>

definition challengeStage ::
  "world \<Rightarrow> bool \<Rightarrow> request \<Rightarrow> env \<Rightarrow> formdata \<Rightarrow> fields \<Rightarrow> response \<times> outbound list" where
  "challengeStage w wj req env form f =
     (let ipAddr = clientIp req
      in if turnstileToken f \<noteq> [] then
           (let args = challengeArgs req env f;
                verify = verifyTurnstileSafe (siteverify w) args;
                calls = [VerifyCall (turnstileRequest args)]
            in if \<not> ok verify then
                 (respond wj 400
                    (errorBody ''turnstile_failed'' (optMember ''details'' (details verify)))
                    ''Captcha failed. Please try again.'', calls)
               else dispatchStage w wj req env form f ipAddr calls)
         else dispatchStage w wj req env form f ipAddr [])"

text \<open>Lines 34 to 88: the body of the \<open>try\<close> once \<open>env\<close> is an object.\<close>

definition handle :: "world \<Rightarrow> eventContext \<Rightarrow> env \<Rightarrow> response \<times> outbound list" where
  "handle w ctx env =
     (let wj = wantsJson ctx;
          req = ctx_request ctx;
          missing = filter (\<lambda>k. \<not> configured (env k)) required
      in if missing \<noteq> [] then
           (respond wj 500 (errorBody ''missing_env'' [(''missing'', JArr (map JStr missing))])
              ''Server misconfigured (missing environment variables).'', [])
         else
           (case formData req of
              None \<Rightarrow>
                (respond wj 400 (errorBody ''invalid_form_data'' []) ''Invalid form submission.'',
                 [])
            | Some form \<Rightarrow>
                (let f = extractFields form
                 in case validate wj f of
                      Some r \<Rightarrow> (r, [])
                    | None \<Rightarrow> challengeStage w wj req env form f)))"

text \<open>
  What is thrown inside the \<open>try\<close>: when \<open>context.env\<close> is \<open>undefined\<close>, reading
  \<open>env[k]\<close> in the check of the required variables throws a \<open>TypeError\<close>.
\<close>

datatype jsError = TypeError string

definition tryBody :: "world \<Rightarrow> eventContext \<Rightarrow> jsError + (response \<times> outbound list)" where
  "tryBody w ctx =
     (case ctx_env ctx of
        None \<Rightarrow>
          Inl (TypeError (''Cannot read properties of undefined (reading '' @ [CHR 0x27]
                          @ ''TURNSTILE_SECRET_KEY'' @ [CHR 0x27] @ '')''))
      | Some env \<Rightarrow> Inr (handle w ctx env))"

text \<open>Lines 320 to 326: the outer \<open>catch\<close>.\<close>

definition serverError :: "string \<Rightarrow> response" where
  "serverError msg =
     Response 500 [(''Content-Type'', ''application/json; charset=utf-8'')]
       (JsonBody (JObj [ (''ok'', JBool False), (''error'', JStr ''server_error''),
                         (''details'', JStr msg) ]))"

definition onRequestPost :: "world \<Rightarrow> eventContext \<Rightarrow> response \<times> outbound list" where
  "onRequestPost w ctx =
     (case tryBody w ctx of
        Inl (TypeError msg) \<Rightarrow> (serverError msg, [])
      | Inr r \<Rightarrow> r)"

subsection \<open>Reading the list of outbound calls\<close>

fun isSendCall :: "outbound \<Rightarrow> bool" where
  "isSendCall (SendCall r) = True"
| "isSendCall (VerifyCall r) = False"

definition dispatchAttempted :: "outbound list \<Rightarrow> bool" where
  "dispatchAttempted calls = list_ex isSendCall calls"

definition verifierCalled :: "outbound list \<Rightarrow> bool" where
  "verifierCalled calls = list_ex (\<lambda>c. \<not> isSendCall c) calls"

subsection \<open>Fixtures\<close>

definition envBase :: env where
  "envBase =
     (\<lambda>k. if k = ''TURNSTILE_SECRET_KEY'' then Some ''ts-secret''
          else if k = ''RESEND_API_KEY'' then Some ''re-key''
          else if k = ''RESEND_FROM_EMAIL'' then Some ''noreply@shop.test''
          else if k = ''TO_DEFAULT'' then Some ''hello@shop.test''
          else None)"

definition providerOk :: fetchResult where
  \<open>providerOk = Fetched 200 ''{"success":true}'' (Some (JObj [(''success'', JBool True)]))\<close>

definition providerRejects :: fetchResult where
  \<open>providerRejects =
     Fetched 200 ''{"success":false}'' (Some (JObj [(''success'', JBool False)]))\<close>

definition provider500 :: fetchResult where
  "provider500 = Fetched 500 ''Internal Server Error'' None"

definition mailAccepted :: fetchResult where
  \<open>mailAccepted = Fetched 200 ''{"id":"m1"}'' (Some (JObj [(''id'', JStr ''m1'')]))\<close>

definition worldOk :: world where
  "worldOk = \<lparr> siteverify = (\<lambda>r. providerOk), emails = (\<lambda>r. mailAccepted) \<rparr>"

definition worldRejects :: world where
  "worldRejects = \<lparr> siteverify = (\<lambda>r. providerRejects), emails = (\<lambda>r. mailAccepted) \<rparr>"

definition worldReplyFails :: world where
  "worldReplyFails =
     \<lparr> siteverify = (\<lambda>r. providerOk),
       emails = (\<lambda>r. if mailHeaders r = None then mailAccepted else provider500) \<rparr>"

definition mkContext :: "string option \<Rightarrow> formdata \<Rightarrow> env \<Rightarrow> eventContext" where
  "mkContext accept form env =
     \<lparr> ctx_request = \<lparr> header = (\<lambda>h. if h = ''Accept'' then accept else None),
                       formData = Some form \<rparr>,
       ctx_env = Some env \<rparr>"

definition envC7 :: env where
  "envC7 = (\<lambda>k. if k = ''TO_DEFAULT'' then Some ''hello@shop.test'' else None)"

definition formC8 :: formdata where
  "formC8 = [(''formType'', ''early_offer''), (''email'', ''a@x.com''),
             (''cf-turnstile-response'', ''tok'')]"

definition formC6 :: formdata where
  "formC6 = [(''formType'', ''early_offer''), (''email'', ''a@x.com''),
             (''firstName'', ''Ana''), (''cf-turnstile-response'', ''tok'')]"

definition formC4 :: formdata where
  "formC4 = [(''formType'', ''reviews''), (''rating'', ''5''),
             (''cf-turnstile-response'', ''tok'')]"

definition formC4plain :: formdata where
  "formC4plain = [(''formType'', ''reviews''), (''rating'', ''5'')]"

definition envNoDefault :: env where
  "envNoDefault = (\<lambda>k. if k = ''TO_DEFAULT'' then None else envBase k)"

definition formC2 :: formdata where
  "formC2 = [(''formType'', ''Newsletter''), (''email'', ''a@x.com''),
             (''cf-turnstile-response'', ''tok'')]"

definition formC3high :: formdata where
  "formC3high = [(''formType'', ''reviews''), (''rating'', ''4''), (''message'', ''Lovely'')]"

definition formC3low :: formdata where
  "formC3low = [(''formType'', ''reviews''), (''rating'', ''3''), (''email'', ''a@x.com'')]"

definition formC3words :: formdata where
  "formC3words = [(''formType'', ''reviews''), (''rating'', ''five''),
                  (''cf-turnstile-response'', ''tok'')]"

definition formC10 :: formdata where
  "formC10 = [(''formType'', ''fitting''), (''email'', ''a@x.com''),
              (''cf-turnstile-response'', ''tok''), (''preferredDate1'', ''2026-05-01'')]"

definition formC10variant :: formdata where
  "formC10variant = [(''formType'', ''  FiTTing ''), (''email'', ''a@x.com''),
              (''cf-turnstile-response'', ''tok''), (''preferredDate1'', ''2026-05-01'')]"

text \<open>
  The eleven keys that lines 59 to 69 read, and the value kept for each; \<open>trimmed\<close>
  says that a string neither starts nor ends with white space.
\<close>

definition extractedKeys :: "string list" where
  "extractedKeys =
     [''formType'', ''email'', ''firstName'', ''lastName'', ''fullName'', ''name'', ''phone'',
      ''message'', ''cf-turnstile-response'', ''rating'', ''source'']"

definition kept :: "fields \<Rightarrow> string \<Rightarrow> string" where
  "kept f k =
     (if k = ''formType'' then formType f
      else if k = ''email'' then email f
      else if k = ''firstName'' then firstName f
      else if k = ''lastName'' then lastName f
      else if k = ''fullName'' then fullName f
      else if k = ''name'' then name f
      else if k = ''phone'' then phone f
      else if k = ''message'' then message f
      else if k = ''cf-turnstile-response'' then turnstileToken f
      else if k = ''rating'' then rating f
      else if k = ''source'' then source f
      else [])"

definition trimmed :: "string \<Rightarrow> bool" where
  "trimmed s = (s = [] \<or> (\<not> isWhiteSpace (hd s) \<and> \<not> isWhiteSpace (last s)))"

definition formC5 :: formdata where
  "formC5 = [(''email'', '' First@x.com ''), (''email'', ''second@x.com''),
             (''formType'', ''fitting''), (''preferredDate1'', '' 2026-05-01 '')]"

definition formC1 :: formdata where
  "formC1 = [(''formType'', ''early_offer''), (''email'', ''a@x.com''),
             (''cf-turnstile-response'', ''tok'')]"

definition ctxC1 :: eventContext where
  "ctxC1 = mkContext (Some ''application/json'') formC1 envBase"


definition ctxNoEnv :: eventContext where
  "ctxNoEnv = \<lparr> ctx_request = \<lparr> header = (\<lambda>h. None), formData = Some formC1 \<rparr>,
             ctx_env = None \<rparr>"


definition isErrorJson :: "response \<Rightarrow> bool" where
  "isErrorJson r = (case body r of JsonBody j \<Rightarrow> member j ''ok'' = Some (JBool False) | _ \<Rightarrow> True)"

section \<open>Properties\<close>

subsection \<open>Strings\<close>

lemma of_char_lowerChar:
  "of_char (lowerChar c) = (if isUpper c then of_char c + 32 else (of_char c :: nat))"
  by (auto simp: lowerChar_def isUpper_def Let_def)

lemma not_isUpper_lowerChar: "\<not> isUpper (lowerChar c)"
  unfolding isUpper_def[of "lowerChar c"] of_char_lowerChar
  by (auto simp: isUpper_def Let_def)

lemma lowerChar_idem: "lowerChar (lowerChar c) = lowerChar c"
  using not_isUpper_lowerChar[of c] by (simp add: lowerChar_def[of "lowerChar c"])

lemma toLowerCase_idem: "toLowerCase (toLowerCase s) = toLowerCase s"
  by (simp add: toLowerCase_def lowerChar_idem)

lemma isWhiteSpace_lowerChar: "isWhiteSpace (lowerChar c) = isWhiteSpace c"
  unfolding isWhiteSpace_def of_char_lowerChar
  by (auto simp: isUpper_def Let_def)

lemma toLowerCase_category_names:
  "toLowerCase ''early_offer'' = ''early_offer''"
  "toLowerCase ''fitting'' = ''fitting''"
  "toLowerCase ''events'' = ''events''"
  "toLowerCase ''reviews'' = ''reviews''"
  by code_simp+

lemma toLowerCase_recognized:
  "t \<in> set recognizedCategories \<Longrightarrow> toLowerCase t = t"
  by (auto simp: recognizedCategories_def toLowerCase_category_names)

subsection \<open>Recipient resolution\<close>

text \<open>
  C7. Recipient resolution is a function of the category and the configuration alone.
  For every recognized category the result is the category-specific override when one
  is set and the default mailbox otherwise; so it is a mailbox whenever the default is
  configured, and it is null exactly when neither the override nor the default is set.
\<close>

theorem resolveToEmail_recognized:
  assumes "t \<in> set recognizedCategories"
  shows "resolveToEmail t env =
           (case categoryOverride t env of
              Some m \<Rightarrow> Some m
            | None \<Rightarrow> if configured (env ''TO_DEFAULT'') then env ''TO_DEFAULT'' else None)
       \<and> (configured (env ''TO_DEFAULT'') \<longrightarrow> resolveToEmail t env \<noteq> None)
       \<and> (resolveToEmail t env = None \<longleftrightarrow>
            categoryOverride t env = None \<and> \<not> configured (env ''TO_DEFAULT''))"
proof -
  have low: "toLowerCase t = t"
    using assms by (rule toLowerCase_recognized)
  from assms consider "t = ''early_offer''" | "t = ''fitting''" | "t = ''events''"
    | "t = ''reviews''"
    by (auto simp: recognizedCategories_def)
  then show ?thesis
  proof cases
    case 1
    with low show ?thesis
      by (auto simp: resolveToEmail_def categoryOverride_def orElse_def configured_def
            split: option.splits)
  next
    case 2
    with low show ?thesis
      by (auto simp: resolveToEmail_def categoryOverride_def orElse_def configured_def
            split: option.splits)
  next
    case 3
    with low show ?thesis
      by (auto simp: resolveToEmail_def categoryOverride_def orElse_def configured_def
            split: option.splits)
  next
    case 4
    with low show ?thesis
      by (auto simp: resolveToEmail_def categoryOverride_def orElse_def configured_def
            split: option.splits)
  qed
qed

theorem resolveToEmail_recognized_witness:
  "''fitting'' \<in> set recognizedCategories
   \<and> categoryOverride ''fitting'' envC7 = None
   \<and> configured (envC7 ''TO_DEFAULT'')
   \<and> resolveToEmail ''fitting'' envC7 = Some ''hello@shop.test''"
proof -
  have h: "''fitting'' \<in> set recognizedCategories"
    by (simp add: recognizedCategories_def)
  have o: "categoryOverride ''fitting'' envC7 = None"
    by (simp add: categoryOverride_def envC7_def orElse_def configured_def)
  have d: "configured (envC7 ''TO_DEFAULT'')"
    by (simp add: envC7_def configured_def)
  from resolveToEmail_recognized [OF h, of envC7] o d
  have "resolveToEmail ''fitting'' envC7 = envC7 ''TO_DEFAULT''"
    by simp
  then have "resolveToEmail ''fitting'' envC7 = Some ''hello@shop.test''"
    by (simp add: envC7_def)
  with h o d show ?thesis by simp
qed

subsection \<open>The stages of the handler\<close>

lemma onRequestPost_env: "ctx_env ctx = Some env \<Longrightarrow> onRequestPost w ctx = handle w ctx env"
  by (simp add: onRequestPost_def tryBody_def)

lemma required_filter:
  "(\<forall>k \<in> set required. configured (env k)) \<Longrightarrow> filter (\<lambda>k. \<not> configured (env k)) required = []"
  by (simp add: filter_empty_conv)

lemma handle_parsed:
  assumes "\<forall>k \<in> set required. configured (env k)"
    and "formData (ctx_request ctx) = Some form"
  shows "handle w ctx env =
           (case validate (wantsJson ctx) (extractFields form) of
              Some r \<Rightarrow> (r, [])
            | None \<Rightarrow> challengeStage w (wantsJson ctx) (ctx_request ctx) env form (extractFields form))"
  using assms by (simp add: handle_def Let_def required_filter)

subsection \<open>Challenge verification\<close>

lemma member_Some_object: "member j k = Some v \<Longrightarrow> \<exists>kvs. j = JObj kvs"
  by (cases j) simp_all

lemma verdict_iff:
  "ok (verifyTurnstileSafe fetch args) =
     (\<exists>st raw kvs. fetch (turnstileRequest args) = Fetched st raw (Some (JObj kvs))
        \<and> respOk st \<and> member (JObj kvs) ''success'' = Some (JBool True))"
proof (cases "fetch (turnstileRequest args)")
  case (NetworkError m)
  then show ?thesis by (simp add: verifyTurnstileSafe_def)
next
  case (Fetched st raw p)
  show ?thesis
  proof (cases p)
    case None
    with Fetched show ?thesis by (simp add: verifyTurnstileSafe_def)
  next
    case (Some j)
    with Fetched show ?thesis
      by (cases j) (auto simp: verifyTurnstileSafe_def Let_def)
  qed
qed

lemma challenge_rejected:
  assumes "turnstileToken f \<noteq> []"
    and "\<not> ok (verifyTurnstileSafe (siteverify w) (challengeArgs req env f))"
  shows "challengeStage w wj req env form f =
           (respond wj 400
              (errorBody ''turnstile_failed''
                 (optMember ''details''
                    (details (verifyTurnstileSafe (siteverify w) (challengeArgs req env f)))))
              ''Captcha failed. Please try again.'',
            [VerifyCall (turnstileRequest (challengeArgs req env f))])"
  using assms by (simp add: challengeStage_def Let_def)

text \<open>
  C8. The verifier answers \<open>ok\<close> exactly when the provider's response has a successful
  status and its JSON body is an object whose member \<open>success\<close> is \<open>true\<close>, whatever
  the token is; a network error, another status, a body that is not JSON or any other
  body is a rejection. When a submission with a token is rejected, the request ends with
  the \<open>turnstile_failed\<close> response after the one call to the verifier, and no email is
  dispatched.
\<close>

theorem challenge_verdict:
  "ok (verifyTurnstileSafe fetch args) =
     (\<exists>st raw kvs. fetch (turnstileRequest args) = Fetched st raw (Some (JObj kvs))
        \<and> respOk st \<and> member (JObj kvs) ''success'' = Some (JBool True))
   \<and> (ctx_env ctx = Some env \<and> (\<forall>k \<in> set required. configured (env k))
        \<and> formData (ctx_request ctx) = Some form
        \<and> validate (wantsJson ctx) (extractFields form) = None
        \<and> turnstileToken (extractFields form) \<noteq> []
        \<and> \<not> ok (verifyTurnstileSafe (siteverify w)
                   (challengeArgs (ctx_request ctx) env (extractFields form)))
      \<longrightarrow> onRequestPost w ctx =
            (respond (wantsJson ctx) 400
               (errorBody ''turnstile_failed''
                  (optMember ''details''
                     (details (verifyTurnstileSafe (siteverify w)
                        (challengeArgs (ctx_request ctx) env (extractFields form))))))
               ''Captcha failed. Please try again.'',
             [VerifyCall (turnstileRequest
                (challengeArgs (ctx_request ctx) env (extractFields form)))])
          \<and> \<not> dispatchAttempted (snd (onRequestPost w ctx)))"
proof (intro conjI impI)
  show "ok (verifyTurnstileSafe fetch args) =
     (\<exists>st raw kvs. fetch (turnstileRequest args) = Fetched st raw (Some (JObj kvs))
        \<and> respOk st \<and> member (JObj kvs) ''success'' = Some (JBool True))"
    by (rule verdict_iff)
next
  assume h: "ctx_env ctx = Some env \<and> (\<forall>k \<in> set required. configured (env k))
        \<and> formData (ctx_request ctx) = Some form
        \<and> validate (wantsJson ctx) (extractFields form) = None
        \<and> turnstileToken (extractFields form) \<noteq> []
        \<and> \<not> ok (verifyTurnstileSafe (siteverify w)
                   (challengeArgs (ctx_request ctx) env (extractFields form)))"
  then have eq: "onRequestPost w ctx =
      challengeStage w (wantsJson ctx) (ctx_request ctx) env form (extractFields form)"
    by (simp add: onRequestPost_env handle_parsed)
  from h show "onRequestPost w ctx =
            (respond (wantsJson ctx) 400
               (errorBody ''turnstile_failed''
                  (optMember ''details''
                     (details (verifyTurnstileSafe (siteverify w)
                        (challengeArgs (ctx_request ctx) env (extractFields form))))))
               ''Captcha failed. Please try again.'',
             [VerifyCall (turnstileRequest
                (challengeArgs (ctx_request ctx) env (extractFields form)))])"
    unfolding eq by (simp add: challenge_rejected)
  then show "\<not> dispatchAttempted (snd (onRequestPost w ctx))"
    by (simp add: dispatchAttempted_def)
qed

theorem challenge_verdict_witness:
  "\<not> ok (verifyTurnstileSafe (siteverify worldRejects)
          (challengeArgs (ctx_request (mkContext None formC8 envBase)) envBase
             (extractFields formC8)))
   \<and> onRequestPost worldRejects (mkContext None formC8 envBase) =
       (html 400 ''Captcha failed. Please try again.'',
        [VerifyCall (SiteverifyRequest ''ts-secret'' ''tok'' None)])
   \<and> \<not> dispatchAttempted (snd (onRequestPost worldRejects (mkContext None formC8 envBase)))"
proof -
  let ?ctx = "mkContext None formC8 envBase"
  have h1: "ctx_env ?ctx = Some envBase" by (simp add: mkContext_def)
  have h2: "\<forall>k \<in> set required. configured (envBase k)" by code_simp
  have h3: "formData (ctx_request ?ctx) = Some formC8" by (simp add: mkContext_def)
  have h4: "validate (wantsJson ?ctx) (extractFields formC8) = None" by code_simp
  have h5: "turnstileToken (extractFields formC8) \<noteq> []" by code_simp
  have h6: "\<not> ok (verifyTurnstileSafe (siteverify worldRejects)
                   (challengeArgs (ctx_request ?ctx) envBase (extractFields formC8)))"
    by code_simp
  have w: "\<not> wantsJson ?ctx" by code_simp
  have r: "turnstileRequest (challengeArgs (ctx_request ?ctx) envBase (extractFields formC8))
           = SiteverifyRequest ''ts-secret'' ''tok'' None" by code_simp
  from challenge_verdict [of "siteverify worldRejects"
      "challengeArgs (ctx_request ?ctx) envBase (extractFields formC8)"
      ?ctx envBase formC8 worldRejects] h1 h2 h3 h4 h5 h6
  have "onRequestPost worldRejects ?ctx =
          (respond (wantsJson ?ctx) 400
             (errorBody ''turnstile_failed''
                (optMember ''details''
                   (details (verifyTurnstileSafe (siteverify worldRejects)
                      (challengeArgs (ctx_request ?ctx) envBase (extractFields formC8))))))
             ''Captcha failed. Please try again.'',
           [VerifyCall (turnstileRequest
              (challengeArgs (ctx_request ?ctx) envBase (extractFields formC8)))])
        \<and> \<not> dispatchAttempted (snd (onRequestPost worldRejects ?ctx))"
    by blast
  with w r h6 show ?thesis by (simp add: respond_def dispatchAttempted_def)
qed

subsection \<open>Dispatch and auto-replies\<close>

lemma autoReply_calls: "autoReply w args = [SendCall (emailsRequest args)]"
  by (simp add: autoReply_def Let_def)

lemma repliesStage_world: "repliesStage w' env form f = repliesStage w env form f"
  by (simp add: repliesStage_def autoReply_calls)

lemma repliesStage_sends: "list_all isSendCall (repliesStage w env form f)"
  by (simp add: repliesStage_def autoReply_calls)

lemma notification_headers:
  "mailHeaders (emailsRequest (notification req env f ipAddr dest)) = None"
  by (simp add: emailsRequest_def notification_def)

lemma dispatchStage_calls:
  "\<exists>rest. snd (dispatchStage w wj req env form f ipAddr calls) = calls @ rest
          \<and> list_all isSendCall rest"
  by (simp add: dispatchStage_def Let_def repliesStage_sends)

lemma dispatchStage_siteverify:
  "dispatchStage (w\<lparr>siteverify := v\<rparr>) wj req env form f ipAddr calls
   = dispatchStage w wj req env form f ipAddr calls"
  by (simp add: dispatchStage_def Let_def repliesStage_world[of "w\<lparr>siteverify := v\<rparr>" _ _ _ w])

lemma dispatchStage_world:
  assumes "\<forall>r. mailHeaders r = None \<longrightarrow> emails w' r = emails w r"
  shows "dispatchStage w' wj req env form f ipAddr calls
         = dispatchStage w wj req env form f ipAddr calls"
proof -
  have "emails w' (emailsRequest (notification req env f ipAddr dest))
        = emails w (emailsRequest (notification req env f ipAddr dest))" for dest
    using assms by (simp add: notification_headers)
  then have "sendWithResendSafe (emails w') (notification req env f ipAddr dest)
        = sendWithResendSafe (emails w) (notification req env f ipAddr dest)" for dest
    by (simp add: sendWithResendSafe_def)
  then show ?thesis
    by (simp add: dispatchStage_def Let_def repliesStage_world[of w' _ _ _ w])
qed

lemma challengeStage_world:
  assumes "siteverify w' = siteverify w"
    and "\<forall>r. mailHeaders r = None \<longrightarrow> emails w' r = emails w r"
  shows "challengeStage w' wj req env form f = challengeStage w wj req env form f"
  using assms(1) dispatchStage_world[OF assms(2)]
  by (simp add: challengeStage_def Let_def)

text \<open>The conditions under which a request gets as far as the primary dispatch.\<close>

lemma request_reaches_dispatch:
  assumes "ctx_env ctx = Some env"
    and "\<forall>k \<in> set required. configured (env k)"
    and "formData (ctx_request ctx) = Some form"
    and "validate (wantsJson ctx) (extractFields form) = None"
    and "turnstileToken (extractFields form) \<noteq> [] \<longrightarrow>
           ok (verifyTurnstileSafe (siteverify w)
                 (challengeArgs (ctx_request ctx) env (extractFields form)))"
  shows "onRequestPost w ctx =
           dispatchStage w (wantsJson ctx) (ctx_request ctx) env form (extractFields form)
             (clientIp (ctx_request ctx))
             (if turnstileToken (extractFields form) \<noteq> []
              then [VerifyCall (turnstileRequest
                      (challengeArgs (ctx_request ctx) env (extractFields form)))]
              else [])"
  using assms
  by (simp add: onRequestPost_env handle_parsed challengeStage_def Let_def)

lemma dispatch_completes:
  assumes "configured (resolveToEmail (formType f) env)"
    and "ok (sendWithResendSafe (emails w)
               (notification req env f ipAddr (orEmpty (resolveToEmail (formType f) env))))"
  shows "fst (dispatchStage w wj req env form f ipAddr calls) = successResponse"
  using assms by (simp add: dispatchStage_def Let_def)

text \<open>
  C6. An auto-reply is the one email request that carries the compliance headers. Two
  worlds that give the same answers to the verifier and to every email request without
  those headers, and so differ only in what they answer to auto-replies, lead to the same
  response and the same calls; and when the primary dispatch of a request succeeds the
  response is the success response, whatever the answer to the auto-reply.
\<close>

theorem autoreply_failure_swallowed:
  assumes "siteverify w' = siteverify w"
    and "\<forall>r. mailHeaders r = None \<longrightarrow> emails w' r = emails w r"
  shows "onRequestPost w' ctx = onRequestPost w ctx
       \<and> (ctx_env ctx = Some env \<and> (\<forall>k \<in> set required. configured (env k))
            \<and> formData (ctx_request ctx) = Some form
            \<and> validate (wantsJson ctx) (extractFields form) = None
            \<and> (turnstileToken (extractFields form) \<noteq> [] \<longrightarrow>
                  ok (verifyTurnstileSafe (siteverify w)
                        (challengeArgs (ctx_request ctx) env (extractFields form))))
            \<and> configured (resolveToEmail (formType (extractFields form)) env)
            \<and> ok (sendWithResendSafe (emails w)
                     (notification (ctx_request ctx) env (extractFields form)
                        (clientIp (ctx_request ctx))
                        (orEmpty (resolveToEmail (formType (extractFields form)) env))))
          \<longrightarrow> fst (onRequestPost w' ctx) = successResponse)"
proof (intro conjI impI)
  show eq: "onRequestPost w' ctx = onRequestPost w ctx"
  proof (cases "ctx_env ctx")
    case None
    then show ?thesis by (simp add: onRequestPost_def tryBody_def)
  next
    case (Some e)
    have "handle w' ctx e = handle w ctx e"
      by (simp add: handle_def Let_def challengeStage_world[OF assms] split: option.splits)
    with Some show ?thesis by (simp add: onRequestPost_env)
  qed
  assume h: "ctx_env ctx = Some env \<and> (\<forall>k \<in> set required. configured (env k))
            \<and> formData (ctx_request ctx) = Some form
            \<and> validate (wantsJson ctx) (extractFields form) = None
            \<and> (turnstileToken (extractFields form) \<noteq> [] \<longrightarrow>
                  ok (verifyTurnstileSafe (siteverify w)
                        (challengeArgs (ctx_request ctx) env (extractFields form))))
            \<and> configured (resolveToEmail (formType (extractFields form)) env)
            \<and> ok (sendWithResendSafe (emails w)
                     (notification (ctx_request ctx) env (extractFields form)
                        (clientIp (ctx_request ctx))
                        (orEmpty (resolveToEmail (formType (extractFields form)) env))))"
  then have "fst (onRequestPost w ctx) = successResponse"
    by (simp add: request_reaches_dispatch dispatch_completes)
  with eq show "fst (onRequestPost w' ctx) = successResponse" by simp
qed


theorem autoreply_failure_swallowed_witness:
  "\<not> ok (sendWithResendSafe (emails worldReplyFails)
           (earlyOfferReply envBase (extractFields formC6)))
   \<and> ok (sendWithResendSafe (emails worldOk)
           (earlyOfferReply envBase (extractFields formC6)))
   \<and> onRequestPost worldReplyFails (mkContext None formC6 envBase)
       = onRequestPost worldOk (mkContext None formC6 envBase)
   \<and> fst (onRequestPost worldReplyFails (mkContext None formC6 envBase)) = successResponse
   \<and> length (filter isSendCall
         (snd (onRequestPost worldReplyFails (mkContext None formC6 envBase)))) = 2"
proof -
  let ?ctx = "mkContext None formC6 envBase"
  let ?f = "extractFields formC6"
  have h1: "siteverify worldReplyFails = siteverify worldOk"
    by (simp add: worldReplyFails_def worldOk_def)
  have h2: "\<forall>r. mailHeaders r = None \<longrightarrow> emails worldReplyFails r = emails worldOk r"
    by (simp add: worldReplyFails_def worldOk_def)
  have p1: "ctx_env ?ctx = Some envBase" by (simp add: mkContext_def)
  have p2: "\<forall>k \<in> set required. configured (envBase k)" by code_simp
  have p3: "formData (ctx_request ?ctx) = Some formC6" by (simp add: mkContext_def)
  have p4: "validate (wantsJson ?ctx) ?f = None" by code_simp
  have p5: "ok (verifyTurnstileSafe (siteverify worldOk)
                  (challengeArgs (ctx_request ?ctx) envBase ?f))" by code_simp
  have p6: "configured (resolveToEmail (formType ?f) envBase)" by code_simp
  have p7: "ok (sendWithResendSafe (emails worldOk)
                  (notification (ctx_request ?ctx) envBase ?f (clientIp (ctx_request ?ctx))
                     (orEmpty (resolveToEmail (formType ?f) envBase))))" by code_simp
  from autoreply_failure_swallowed [OF h1 h2, of ?ctx envBase formC6] p1 p2 p3 p4 p5 p6 p7
  have eq: "onRequestPost worldReplyFails ?ctx = onRequestPost worldOk ?ctx"
    and fin: "fst (onRequestPost worldReplyFails ?ctx) = successResponse"
    by blast+
  have a: "\<not> ok (sendWithResendSafe (emails worldReplyFails) (earlyOfferReply envBase ?f))"
    by code_simp
  have b: "ok (sendWithResendSafe (emails worldOk) (earlyOfferReply envBase ?f))"
    by code_simp
  have d: "length (filter isSendCall (snd (onRequestPost worldOk ?ctx))) = 2"
    by code_simp
  from eq fin a b d show ?thesis by simp
qed

subsection \<open>The exemption of high-rating reviews\<close>

lemma isHighRating_valid: "isHighRating f \<Longrightarrow> validate wj f = None"
  by (auto simp: validate_def isHighRating_def)

lemma challengeStage_no_token:
  "turnstileToken f = [] \<Longrightarrow>
   challengeStage w wj req env form f = dispatchStage w wj req env form f (clientIp req) []"
  by (simp add: challengeStage_def Let_def)

lemma dispatchStage_no_verifier:
  "\<not> verifierCalled (snd (dispatchStage w wj req env form f ipAddr []))"
proof -
  obtain rest where "snd (dispatchStage w wj req env form f ipAddr []) = [] @ rest"
    and "list_all isSendCall rest"
    using dispatchStage_calls by blast
  then show ?thesis
    by (simp add: verifierCalled_def list_ex_iff list_all_iff)
qed

lemma challengeStage_token_calls:
  "turnstileToken f \<noteq> [] \<Longrightarrow> verifierCalled (snd (challengeStage w wj req env form f))"
proof -
  assume t: "turnstileToken f \<noteq> []"
  obtain rest where r: "snd (dispatchStage w wj req env form f (clientIp req)
        [VerifyCall (turnstileRequest (challengeArgs req env f))])
      = [VerifyCall (turnstileRequest (challengeArgs req env f))] @ rest"
    using dispatchStage_calls by blast
  from t r show ?thesis
    by (simp add: challengeStage_def Let_def verifierCalled_def)
qed

text \<open>
  C4, as amended. For a submission that validation exempted (a review whose rating parses
  to 4 or more), the challenge stage is skipped exactly when the submission carries no
  token: then the verifier is not called and its answers cannot change the outcome. When
  such a submission carries a token, the token is verified like any other, and a
  rejection ends the request with the \<open>turnstile_failed\<close> response.
\<close>

theorem exempt_review_challenge:
  assumes "ctx_env ctx = Some env"
    and "\<forall>k \<in> set required. configured (env k)"
    and "formData (ctx_request ctx) = Some form"
    and "isHighRating (extractFields form)"
  shows "(turnstileToken (extractFields form) = [] \<longrightarrow>
            \<not> verifierCalled (snd (onRequestPost w ctx))
            \<and> (\<forall>v. onRequestPost (w\<lparr>siteverify := v\<rparr>) ctx = onRequestPost w ctx))
       \<and> (turnstileToken (extractFields form) \<noteq> [] \<longrightarrow>
            verifierCalled (snd (onRequestPost w ctx))
            \<and> (\<not> ok (verifyTurnstileSafe (siteverify w)
                       (challengeArgs (ctx_request ctx) env (extractFields form))) \<longrightarrow>
                 onRequestPost w ctx =
                   (respond (wantsJson ctx) 400
                      (errorBody ''turnstile_failed''
                         (optMember ''details''
                            (details (verifyTurnstileSafe (siteverify w)
                               (challengeArgs (ctx_request ctx) env (extractFields form))))))
                      ''Captcha failed. Please try again.'',
                    [VerifyCall (turnstileRequest
                       (challengeArgs (ctx_request ctx) env (extractFields form)))])))"
proof -
  have eq: "onRequestPost u ctx =
      challengeStage u (wantsJson ctx) (ctx_request ctx) env form (extractFields form)" for u
    using assms by (simp add: onRequestPost_env handle_parsed isHighRating_valid)
  show ?thesis
  proof (intro conjI impI allI)
    assume "turnstileToken (extractFields form) = []"
    then show "\<not> verifierCalled (snd (onRequestPost w ctx))"
      by (simp add: eq challengeStage_no_token dispatchStage_no_verifier)
  next
    fix v
    assume "turnstileToken (extractFields form) = []"
    then show "onRequestPost (w\<lparr>siteverify := v\<rparr>) ctx = onRequestPost w ctx"
      by (simp add: eq challengeStage_no_token dispatchStage_siteverify)
  next
    assume "turnstileToken (extractFields form) \<noteq> []"
    then show "verifierCalled (snd (onRequestPost w ctx))"
      by (simp add: eq challengeStage_token_calls)
  next
    assume "turnstileToken (extractFields form) \<noteq> []"
      and "\<not> ok (verifyTurnstileSafe (siteverify w)
                       (challengeArgs (ctx_request ctx) env (extractFields form)))"
    then show "onRequestPost w ctx =
                   (respond (wantsJson ctx) 400
                      (errorBody ''turnstile_failed''
                         (optMember ''details''
                            (details (verifyTurnstileSafe (siteverify w)
                               (challengeArgs (ctx_request ctx) env (extractFields form))))))
                      ''Captcha failed. Please try again.'',
                    [VerifyCall (turnstileRequest
                       (challengeArgs (ctx_request ctx) env (extractFields form)))])"
      by (simp add: eq challenge_rejected)
  qed
qed

text \<open>
  C4 as stated fails: an exempted review that carries a token is sent to the verifier,
  and the verifier's rejection ends the request, which succeeds when the verifier accepts.
\<close>

theorem exempt_review_token_counterexample:
  "isHighRating (extractFields formC4)
   \<and> onRequestPost worldRejects (mkContext None formC4 envBase) =
       (html 400 ''Captcha failed. Please try again.'',
        [VerifyCall (SiteverifyRequest ''ts-secret'' ''tok'' None)])
   \<and> fst (onRequestPost worldOk (mkContext None formC4 envBase)) = successResponse"
  by code_simp

theorem exempt_review_challenge_witness:
  "isHighRating (extractFields formC4plain)
   \<and> turnstileToken (extractFields formC4plain) = []
   \<and> \<not> verifierCalled (snd (onRequestPost worldRejects (mkContext None formC4plain envBase)))
   \<and> onRequestPost (worldRejects\<lparr>siteverify := siteverify worldOk\<rparr>)
         (mkContext None formC4plain envBase)
       = onRequestPost worldRejects (mkContext None formC4plain envBase)
   \<and> isHighRating (extractFields formC4)
   \<and> turnstileToken (extractFields formC4) \<noteq> []
   \<and> verifierCalled (snd (onRequestPost worldRejects (mkContext None formC4 envBase)))"
proof -
  have e: "ctx_env (mkContext None fm envBase) = Some envBase" for fm
    by (simp add: mkContext_def)
  have r: "\<forall>k \<in> set required. configured (envBase k)" by code_simp
  have p: "formData (ctx_request (mkContext None fm envBase)) = Some fm" for fm
    by (simp add: mkContext_def)
  have h1: "isHighRating (extractFields formC4plain)" by code_simp
  have t1: "turnstileToken (extractFields formC4plain) = []" by code_simp
  have h2: "isHighRating (extractFields formC4)" by code_simp
  have t2: "turnstileToken (extractFields formC4) \<noteq> []" by code_simp
  from exempt_review_challenge [OF e r p h1, of worldRejects] t1
  have a: "\<not> verifierCalled (snd (onRequestPost worldRejects (mkContext None formC4plain envBase)))"
    and b: "onRequestPost (worldRejects\<lparr>siteverify := siteverify worldOk\<rparr>)
              (mkContext None formC4plain envBase)
            = onRequestPost worldRejects (mkContext None formC4plain envBase)"
    by blast+
  from exempt_review_challenge [OF e r p h2, of worldRejects] t2
  have c: "verifierCalled (snd (onRequestPost worldRejects (mkContext None formC4 envBase)))"
    by blast
  from h1 t1 a b h2 t2 c show ?thesis by blast
qed

subsection \<open>Routing of unrecognized categories\<close>

lemma formType_lower:
  "toLowerCase (formType (extractFields form)) = formType (extractFields form)"
  by (simp add: extractFields_def toLowerCase_idem)

lemma resolveToEmail_unrecognized:
  "toLowerCase t \<notin> set recognizedCategories \<Longrightarrow>
   resolveToEmail t env = orElse (env ''TO_DEFAULT'') None"
  by (simp add: resolveToEmail_def recognizedCategories_def Let_def)

lemma orElse_None: "orElse a None = (if configured a then a else None)"
  by (simp add: orElse_def)

lemma dispatchStage_unroutable:
  "\<not> configured (resolveToEmail (formType f) env) \<Longrightarrow>
   dispatchStage w wj req env form f ipAddr calls =
     (respond wj 400 (errorBody ''unknown_formtype'' [(''formType'', JStr (formType f))])
        ''Unknown form type.'', calls)"
  by (simp add: dispatchStage_def Let_def)

lemma dispatchStage_sends:
  "configured (resolveToEmail (formType f) env) \<Longrightarrow>
   SendCall (emailsRequest
      (notification req env f ipAddr (orEmpty (resolveToEmail (formType f) env))))
     \<in> set (snd (dispatchStage w wj req env form f ipAddr calls))"
  by (simp add: dispatchStage_def Let_def)

text \<open>
  C2, as amended. Take a submission whose category is not a recognized one and that gets
  as far as routing (the required configuration is there, the fields are valid, the
  challenge is verified). When no default mailbox is configured, the answer is the
  \<open>unknown_formtype\<close> fault and no email is dispatched. When a default mailbox is
  configured, the notification is dispatched to it.
\<close>

theorem unrecognized_category_routing:
  assumes "ctx_env ctx = Some env"
    and "\<forall>k \<in> set required. configured (env k)"
    and "formData (ctx_request ctx) = Some form"
    and "formType (extractFields form) \<notin> set recognizedCategories"
    and "validate (wantsJson ctx) (extractFields form) = None"
    and "ok (verifyTurnstileSafe (siteverify w)
               (challengeArgs (ctx_request ctx) env (extractFields form)))"
  shows "(\<not> configured (env ''TO_DEFAULT'') \<longrightarrow>
            fst (onRequestPost w ctx) =
              respond (wantsJson ctx) 400
                (errorBody ''unknown_formtype''
                   [(''formType'', JStr (formType (extractFields form)))])
                ''Unknown form type.''
            \<and> \<not> dispatchAttempted (snd (onRequestPost w ctx)))
       \<and> (configured (env ''TO_DEFAULT'') \<longrightarrow>
            SendCall (emailsRequest
               (notification (ctx_request ctx) env (extractFields form)
                  (clientIp (ctx_request ctx)) (orEmpty (env ''TO_DEFAULT''))))
              \<in> set (snd (onRequestPost w ctx)))"
proof -
  let ?f = "extractFields form"
  let ?calls = "if turnstileToken ?f \<noteq> []
              then [VerifyCall (turnstileRequest (challengeArgs (ctx_request ctx) env ?f))]
              else []"
  have eq: "onRequestPost w ctx =
      dispatchStage w (wantsJson ctx) (ctx_request ctx) env form ?f
        (clientIp (ctx_request ctx)) ?calls"
    using assms by (simp add: request_reaches_dispatch)
  have res: "resolveToEmail (formType ?f) env = orElse (env ''TO_DEFAULT'') None"
    using assms(4) by (simp add: resolveToEmail_unrecognized formType_lower)
  show ?thesis
  proof (intro conjI impI)
    assume n: "\<not> configured (env ''TO_DEFAULT'')"
    then have u: "\<not> configured (resolveToEmail (formType ?f) env)"
      by (simp add: res orElse_None configured_def)
    show "fst (onRequestPost w ctx) =
              respond (wantsJson ctx) 400
                (errorBody ''unknown_formtype'' [(''formType'', JStr (formType ?f))])
                ''Unknown form type.''"
      by (simp add: eq dispatchStage_unroutable[OF u])
    show "\<not> dispatchAttempted (snd (onRequestPost w ctx))"
      by (simp add: eq dispatchStage_unroutable[OF u] dispatchAttempted_def)
  next
    assume c: "configured (env ''TO_DEFAULT'')"
    then have r: "resolveToEmail (formType ?f) env = env ''TO_DEFAULT''"
      by (simp add: res orElse_None)
    with c have "configured (resolveToEmail (formType ?f) env)" by simp
    from dispatchStage_sends[OF this] r
    show "SendCall (emailsRequest
               (notification (ctx_request ctx) env ?f
                  (clientIp (ctx_request ctx)) (orEmpty (env ''TO_DEFAULT''))))
              \<in> set (snd (onRequestPost w ctx))"
      by (simp add: eq)
  qed
qed

text \<open>
  C2 as stated fails: with a default mailbox configured, a submission of the category
  \<open>newsletter\<close> is dispatched and answered with the success response.
\<close>

theorem unrecognized_category_counterexample:
  "formType (extractFields formC2) = ''newsletter''
   \<and> ''newsletter'' \<notin> set recognizedCategories
   \<and> configured (envBase ''TO_DEFAULT'')
   \<and> fst (onRequestPost worldOk (mkContext None formC2 envBase)) = successResponse
   \<and> dispatchAttempted (snd (onRequestPost worldOk (mkContext None formC2 envBase)))"
  by code_simp

theorem unrecognized_category_routing_witness:
  "formType (extractFields formC2) \<notin> set recognizedCategories
   \<and> \<not> configured (envNoDefault ''TO_DEFAULT'')
   \<and> fst (onRequestPost worldOk (mkContext None formC2 envNoDefault))
       = html 400 ''Unknown form type.''
   \<and> \<not> dispatchAttempted (snd (onRequestPost worldOk (mkContext None formC2 envNoDefault)))"
proof -
  let ?ctx = "mkContext None formC2 envNoDefault"
  have h1: "ctx_env ?ctx = Some envNoDefault" by (simp add: mkContext_def)
  have h2: "\<forall>k \<in> set required. configured (envNoDefault k)" by code_simp
  have h3: "formData (ctx_request ?ctx) = Some formC2" by (simp add: mkContext_def)
  have h4: "formType (extractFields formC2) \<notin> set recognizedCategories" by code_simp
  have h5: "validate (wantsJson ?ctx) (extractFields formC2) = None" by code_simp
  have h6: "ok (verifyTurnstileSafe (siteverify worldOk)
               (challengeArgs (ctx_request ?ctx) envNoDefault (extractFields formC2)))"
    by code_simp
  have n: "\<not> configured (envNoDefault ''TO_DEFAULT'')" by code_simp
  have w: "\<not> wantsJson ?ctx" by code_simp
  from unrecognized_category_routing [OF h1 h2 h3 h4 h5 h6] n
  have "fst (onRequestPost worldOk ?ctx) =
              respond (wantsJson ?ctx) 400
                (errorBody ''unknown_formtype''
                   [(''formType'', JStr (formType (extractFields formC2)))])
                ''Unknown form type.''"
    and d: "\<not> dispatchAttempted (snd (onRequestPost worldOk ?ctx))"
    by blast+
  with w have "fst (onRequestPost worldOk ?ctx) = html 400 ''Unknown form type.''"
    by (simp add: respond_def)
  with h4 n d show ?thesis by blast
qed

subsection \<open>Validation of reviews\<close>

lemma parseInt_empty: "parseInt [] = None"
  by (simp add: parseInt_def)

lemma isHighRating_iff:
  "isHighRating f \<longleftrightarrow> formType f = ''reviews'' \<and> (\<exists>n. parseInt (rating f) = Some n \<and> 4 \<le> n)"
  by (cases "rating f = []") (auto simp: isHighRating_def parseInt_empty split: option.splits)

lemma validate_not_exempt:
  assumes "\<not> isHighRating f" and "formType f \<noteq> []"
  shows "validate wj f =
           (if email f = [] then
              Some (respond wj 400 (errorBody ''missing_email'' []) ''Please enter an email.'')
            else if turnstileToken f = [] then
              Some (respond wj 400 (errorBody ''missing_turnstile'' [])
                      ''Captcha missing. Please refresh and try again.'')
            else None)"
  using assms by (simp add: validate_def)

lemma handle_invalid:
  assumes "ctx_env ctx = Some env"
    and "\<forall>k \<in> set required. configured (env k)"
    and "formData (ctx_request ctx) = Some form"
    and "validate (wantsJson ctx) (extractFields form) = Some r"
  shows "onRequestPost w ctx = (r, [])"
  using assms by (simp add: onRequestPost_env handle_parsed)

text \<open>
  C3. For a submission of the review category: when the rating parses to an integer of
  at least 4, the submission passes validation, and with neither email nor token it goes
  on to routing and dispatch without a call to the verifier. When the rating parses to
  1, 2 or 3, or does not parse, a missing email is answered with the \<open>missing_email\<close>
  fault and, the email being there, a missing token with the \<open>missing_turnstile\<close>
  fault, before any outbound call; validation then gives what it gives for the same
  fields under any other category.
\<close>

theorem review_validation:
  assumes "ctx_env ctx = Some env"
    and "\<forall>k \<in> set required. configured (env k)"
    and "formData (ctx_request ctx) = Some form"
    and "f = extractFields form"
    and "formType f = ''reviews''"
  shows "(\<forall>n. parseInt (rating f) = Some n \<and> 4 \<le> n \<longrightarrow>
            validate (wantsJson ctx) f = None
            \<and> (email f = [] \<and> turnstileToken f = [] \<longrightarrow>
                 onRequestPost w ctx =
                   dispatchStage w (wantsJson ctx) (ctx_request ctx) env form f
                     (clientIp (ctx_request ctx)) []))
       \<and> (parseInt (rating f) = None \<or> parseInt (rating f) \<in> {Some 1, Some 2, Some 3} \<longrightarrow>
            (email f = [] \<longrightarrow>
               onRequestPost w ctx =
                 (respond (wantsJson ctx) 400 (errorBody ''missing_email'' [])
                    ''Please enter an email.'', []))
            \<and> (email f \<noteq> [] \<and> turnstileToken f = [] \<longrightarrow>
                 onRequestPost w ctx =
                   (respond (wantsJson ctx) 400 (errorBody ''missing_turnstile'' [])
                      ''Captcha missing. Please refresh and try again.'', []))
            \<and> (\<forall>t. t \<noteq> [] \<longrightarrow>
                 validate (wantsJson ctx) f = validate (wantsJson ctx) (f\<lparr>formType := t\<rparr>)))"
proof (intro conjI allI impI)
  fix n
  assume "parseInt (rating f) = Some n \<and> 4 \<le> n"
  with assms(5) have high: "isHighRating f"
    by (auto simp: isHighRating_iff)
  then show v: "validate (wantsJson ctx) f = None"
    by (rule isHighRating_valid)
  assume "email f = [] \<and> turnstileToken f = []"
  with v assms(1-4) show "onRequestPost w ctx =
      dispatchStage w (wantsJson ctx) (ctx_request ctx) env form f (clientIp (ctx_request ctx)) []"
    by (simp add: request_reaches_dispatch)
next
  assume low: "parseInt (rating f) = None \<or> parseInt (rating f) \<in> {Some 1, Some 2, Some 3}"
  then have nh: "\<not> isHighRating f"
    by (auto simp: isHighRating_iff)
  from assms(5) have ne: "formType f \<noteq> []" by simp
  note v = validate_not_exempt[OF nh ne]
  {
    assume "email f = []"
    with v assms(1-4) show "onRequestPost w ctx =
        (respond (wantsJson ctx) 400 (errorBody ''missing_email'' [])
           ''Please enter an email.'', [])"
      by (simp add: handle_invalid)
  }
  {
    assume "email f \<noteq> [] \<and> turnstileToken f = []"
    with v assms(1-4) show "onRequestPost w ctx =
        (respond (wantsJson ctx) 400 (errorBody ''missing_turnstile'' [])
           ''Captcha missing. Please refresh and try again.'', [])"
      by (simp add: handle_invalid)
  }
  fix t :: string
  assume t: "t \<noteq> []"
  have "\<not> isHighRating (f\<lparr>formType := t\<rparr>)"
    using low by (auto simp: isHighRating_iff)
  with t nh ne show "validate (wantsJson ctx) f = validate (wantsJson ctx) (f\<lparr>formType := t\<rparr>)"
    by (simp add: validate_not_exempt)
qed

theorem review_validation_witness:
  "formType (extractFields formC3high) = ''reviews''
   \<and> parseInt (rating (extractFields formC3high)) = Some 4
   \<and> email (extractFields formC3high) = []
   \<and> turnstileToken (extractFields formC3high) = []
   \<and> validate False (extractFields formC3high) = None
   \<and> fst (onRequestPost worldRejects (mkContext None formC3high envBase)) = successResponse
   \<and> formType (extractFields formC3low) = ''reviews''
   \<and> parseInt (rating (extractFields formC3low)) = Some 3
   \<and> onRequestPost worldOk (mkContext None formC3low envBase) =
       (html 400 ''Captcha missing. Please refresh and try again.'', [])
   \<and> formType (extractFields formC3words) = ''reviews''
   \<and> parseInt (rating (extractFields formC3words)) = None
   \<and> onRequestPost worldOk (mkContext None formC3words envBase) =
       (html 400 ''Please enter an email.'', [])"
proof -
  let ?h = "mkContext None formC3high envBase"
  let ?l = "mkContext None formC3low envBase"
  let ?n = "mkContext None formC3words envBase"
  have e: "ctx_env (mkContext None fm envBase) = Some envBase" for fm
    by (simp add: mkContext_def)
  have r: "\<forall>k \<in> set required. configured (envBase k)" by code_simp
  have p: "formData (ctx_request (mkContext None fm envBase)) = Some fm" for fm
    by (simp add: mkContext_def)
  have wj: "wantsJson (mkContext None fm envBase) = False" for fm
    by (simp add: mkContext_def wantsJson_def orEmpty_def)
  have a1: "formType (extractFields formC3high) = ''reviews''" by code_simp
  have a2: "parseInt (rating (extractFields formC3high)) = Some 4" by code_simp
  have a3: "email (extractFields formC3high) = []" by code_simp
  have a4: "turnstileToken (extractFields formC3high) = []" by code_simp
  have b1: "formType (extractFields formC3low) = ''reviews''" by code_simp
  have b2: "parseInt (rating (extractFields formC3low)) = Some 3" by code_simp
  have b3: "email (extractFields formC3low) \<noteq> []" by code_simp
  have b4: "turnstileToken (extractFields formC3low) = []" by code_simp
  from review_validation [OF e r p refl a1, of worldRejects] a2 a3 a4
  have v: "validate (wantsJson ?h) (extractFields formC3high) = None"
    and d: "onRequestPost worldRejects ?h =
              dispatchStage worldRejects (wantsJson ?h) (ctx_request ?h) envBase formC3high
                (extractFields formC3high) (clientIp (ctx_request ?h)) []"
    by simp_all
  have s: "fst (dispatchStage worldRejects (wantsJson ?h) (ctx_request ?h) envBase formC3high
                (extractFields formC3high) (clientIp (ctx_request ?h)) []) = successResponse"
    by code_simp
  from review_validation [OF e r p refl b1, of worldOk] b2 b3 b4
  have m: "onRequestPost worldOk ?l =
             (respond (wantsJson ?l) 400 (errorBody ''missing_turnstile'' [])
                ''Captcha missing. Please refresh and try again.'', [])"
    by simp
  have c1: "formType (extractFields formC3words) = ''reviews''" by code_simp
  have c2: "parseInt (rating (extractFields formC3words)) = None" by code_simp
  have c3: "email (extractFields formC3words) = []" by code_simp
  from review_validation [OF e r p refl c1, of worldOk] c2 c3
  have n: "onRequestPost worldOk ?n =
             (respond (wantsJson ?n) 400 (errorBody ''missing_email'' [])
                ''Please enter an email.'', [])"
    by simp
  from a1 a2 a3 a4 v d s b1 b2 m c1 c2 n show ?thesis
    by (simp add: wj respond_def)
qed

subsection \<open>Case and white space of the category\<close>

text \<open>White space around a value does not survive \<open>trim\<close>.\<close>

lemma trim_padding:
  assumes "list_all isWhiteSpace l" and "list_all isWhiteSpace r"
  shows "trim (l @ s @ r) = trim s"
proof -
  from assms have l: "\<And>x. x \<in> set l \<Longrightarrow> isWhiteSpace x"
    and r: "\<And>x. x \<in> set (rev r) \<Longrightarrow> isWhiteSpace x"
    by (simp_all add: list_all_iff)
  have d: "dropWhile isWhiteSpace (l @ s @ r) = dropWhile isWhiteSpace (s @ r)"
    using l by (rule dropWhile_append2)
  show ?thesis
  proof (cases "\<forall>x \<in> set s. isWhiteSpace x")
    case True
    with assms(2) have a: "dropWhile isWhiteSpace (s @ r) = []"
      by (auto simp: list_all_iff)
    from True have b: "dropWhile isWhiteSpace s = []" by simp
    show ?thesis unfolding trim_def d a b ..
  next
    case False
    then obtain x where "x \<in> set s" "\<not> isWhiteSpace x" by blast
    then have "dropWhile isWhiteSpace (s @ r) = dropWhile isWhiteSpace s @ r"
      by (rule dropWhile_append1)
    then have "rev (dropWhile isWhiteSpace (l @ s @ r))
               = rev r @ rev (dropWhile isWhiteSpace s)"
      by (simp add: d)
    moreover have "dropWhile isWhiteSpace (rev r @ rev (dropWhile isWhiteSpace s))
                   = dropWhile isWhiteSpace (rev (dropWhile isWhiteSpace s))"
      using r by (rule dropWhile_append2)
    ultimately show ?thesis by (simp add: trim_def)
  qed
qed

lemma wantsJson_formData:
  "wantsJson (ctx\<lparr>ctx_request := (ctx_request ctx)\<lparr>formData := fd\<rparr>\<rparr>) = wantsJson ctx"
  by (simp add: wantsJson_def)

lemma extractFields_cong:
  assumes "\<forall>k. k \<noteq> ''formType'' \<longrightarrow> formGet form' k = formGet form k"
    and "toLowerCase (trim (orEmpty (formGet form' ''formType'')))
         = toLowerCase (trim (orEmpty (formGet form ''formType'')))"
  shows "extractFields form' = extractFields form"
  using assms by (simp add: extractFields_def field_def)

lemma preferredDates_cong:
  assumes "\<forall>k. k \<noteq> ''formType'' \<longrightarrow> formGet form' k = formGet form k"
  shows "preferredDates form' = preferredDates form"
  using assms by (simp add: preferredDates_def slot_def)

lemma fittingReply_cong:
  assumes "\<forall>k. k \<noteq> ''formType'' \<longrightarrow> formGet form' k = formGet form k"
  shows "fittingReply env form' f = fittingReply env form f"
  using assms preferredDates_cong[OF assms] by (simp add: fittingReply_def)

lemma challengeStage_cong:
  assumes "\<forall>k. k \<noteq> ''formType'' \<longrightarrow> formGet form' k = formGet form k"
  shows "challengeStage w wj req env form' f = challengeStage w wj req env form f"
  using fittingReply_cong[OF assms]
  by (simp add: challengeStage_def dispatchStage_def repliesStage_def Let_def)

lemma challengeStage_request_formData:
  "challengeStage w wj (req\<lparr>formData := fd\<rparr>) env form f = challengeStage w wj req env form f"
  by (simp add: challengeStage_def dispatchStage_def clientIp_def challengeArgs_def
        notification_def Let_def)

text \<open>
  C10. The handler reads the submitted \<open>formType\<close> only after trimming and lower-casing
  it. Two bodies whose \<open>formType\<close> values are equal after trimming and lower-casing,
  and which agree on every other key, give the same extracted fields and the same
  response and outbound calls: the same validation outcome, recipient, subject line and
  auto-reply.
\<close>

theorem category_normalized:
  assumes "formData (ctx_request ctx) = Some form"
    and "\<forall>k. k \<noteq> ''formType'' \<longrightarrow> formGet form' k = formGet form k"
    and "toLowerCase (trim (orEmpty (formGet form' ''formType'')))
         = toLowerCase (trim (orEmpty (formGet form ''formType'')))"
  shows "extractFields form' = extractFields form
       \<and> onRequestPost w (ctx\<lparr>ctx_request := (ctx_request ctx)\<lparr>formData := Some form'\<rparr>\<rparr>)
           = onRequestPost w ctx"
proof
  show ex: "extractFields form' = extractFields form"
    using assms(2,3) by (rule extractFields_cong)
  let ?ctx' = "ctx\<lparr>ctx_request := (ctx_request ctx)\<lparr>formData := Some form'\<rparr>\<rparr>"
  show "onRequestPost w ?ctx' = onRequestPost w ctx"
  proof (cases "ctx_env ctx")
    case None
    then show ?thesis by (simp add: onRequestPost_def tryBody_def)
  next
    case (Some env)
    have cs: "challengeStage w wj ((ctx_request ctx)\<lparr>formData := Some form'\<rparr>) env form' f
              = challengeStage w wj (ctx_request ctx) env form f" for wj f
      by (simp add: challengeStage_request_formData challengeStage_cong[OF assms(2)])
    have "handle w ?ctx' env = handle w ctx env"
      using assms(1)
      by (simp add: handle_def Let_def wantsJson_formData ex cs split: option.splits)
    with Some show ?thesis by (simp add: onRequestPost_env)
  qed
qed

theorem category_normalized_witness:
  "formType (extractFields formC10variant) = ''fitting''
   \<and> extractFields formC10variant = extractFields formC10
   \<and> onRequestPost worldOk (mkContext None formC10variant envBase)
       = onRequestPost worldOk (mkContext None formC10 envBase)"
proof -
  have h1: "formData (ctx_request (mkContext None formC10 envBase)) = Some formC10"
    by (simp add: mkContext_def)
  have h2: "\<forall>k. k \<noteq> ''formType'' \<longrightarrow> formGet formC10variant k = formGet formC10 k"
    by (simp add: formC10_def formC10variant_def)
  have h3: "toLowerCase (trim (orEmpty (formGet formC10variant ''formType'')))
            = toLowerCase (trim (orEmpty (formGet formC10 ''formType'')))"
    by code_simp
  have c: "(mkContext None formC10 envBase)
             \<lparr>ctx_request := (ctx_request (mkContext None formC10 envBase))
                \<lparr>formData := Some formC10variant\<rparr>\<rparr>
           = mkContext None formC10variant envBase"
    by (simp add: mkContext_def)
  have t: "formType (extractFields formC10variant) = ''fitting''" by code_simp
  from category_normalized [OF h1 h2 h3, of worldOk] c t show ?thesis by simp
qed

subsection \<open>Field extraction\<close>

lemma formGet_first:
  "i < length form \<Longrightarrow> fst (form ! i) = k \<Longrightarrow> \<forall>j<i. fst (form ! j) \<noteq> k \<Longrightarrow>
   formGet form k = Some (snd (form ! i))"
proof (induction form arbitrary: i)
  case Nil
  then show ?case by simp
next
  case (Cons e es)
  obtain k' v where e: "e = (k', v)" by (cases e)
  show ?case
  proof (cases i)
    case 0
    with Cons.prems e show ?thesis by simp
  next
    case (Suc n)
    with Cons.prems e have "k' \<noteq> k" by fastforce
    moreover from Suc Cons.prems have "n < length es" "fst (es ! n) = k"
      "\<forall>j<n. fst (es ! j) \<noteq> k" by auto
    ultimately show ?thesis
      using Cons.IH[of n] Suc e by simp
  qed
qed

lemma formGet_absent: "k \<notin> fst ` set form \<Longrightarrow> formGet form k = None"
  by (induction form) auto

lemma last_dropWhile_nonempty:
  "dropWhile P xs \<noteq> [] \<Longrightarrow> last (dropWhile P xs) = last xs"
proof -
  assume n: "dropWhile P xs \<noteq> []"
  have "last xs = last (takeWhile P xs @ dropWhile P xs)" by simp
  also from n have "\<dots> = last (dropWhile P xs)" by (rule last_appendR)
  finally show ?thesis by simp
qed

lemma trimmed_trim: "trimmed (trim s)"
proof (cases "trim s = []")
  case True
  then show ?thesis by (simp add: trimmed_def)
next
  case False
  let ?a = "dropWhile isWhiteSpace s"
  let ?b = "dropWhile isWhiteSpace (rev ?a)"
  from False have b: "?b \<noteq> []" by (simp add: trim_def)
  have a: "?a \<noteq> []"
  proof
    assume "?a = []"
    then have "?b = []" by (simp only: rev.simps dropWhile.simps)
    with b show False by contradiction
  qed
  from b have "\<not> isWhiteSpace (hd ?b)" by (rule hd_dropWhile)
  with b have l: "\<not> isWhiteSpace (last (trim s))"
    by (simp add: trim_def last_rev)
  from b have "last ?b = last (rev ?a)" by (rule last_dropWhile_nonempty)
  with a have "last ?b = hd ?a" by (simp add: last_rev)
  moreover from a have "\<not> isWhiteSpace (hd ?a)" by (rule hd_dropWhile)
  ultimately have h: "\<not> isWhiteSpace (hd (trim s))"
    using b by (simp add: trim_def hd_rev)
  from l h show ?thesis by (simp add: trimmed_def)
qed

lemma trimmed_toLowerCase: "trimmed s \<Longrightarrow> trimmed (toLowerCase s)"
  by (auto simp: trimmed_def toLowerCase_def hd_map last_map isWhiteSpace_lowerChar)

lemma kept_extractFields:
  "k \<in> set extractedKeys \<Longrightarrow>
   kept (extractFields form) k =
     (if k = ''formType'' \<or> k = ''email'' then toLowerCase (field form k) else field form k)"
  by (auto simp: extractedKeys_def kept_def extractFields_def)

text \<open>
  C5, as amended. For every decoded form body and each of the eleven keys the handler
  extracts, the value kept is that of the first entry with the key, with surrounding
  white space trimmed (and lower-cased for \<open>formType\<close> and \<open>email\<close>); it is empty
  when no entry has the key, and it never starts or ends with white space.
\<close>

theorem extracted_first_trimmed:
  assumes "k \<in> set extractedKeys"
  shows "(\<forall>i v. i < length form \<and> form ! i = (k, v) \<and> (\<forall>j<i. fst (form ! j) \<noteq> k) \<longrightarrow>
            kept (extractFields form) k =
              (if k = ''formType'' \<or> k = ''email'' then toLowerCase (trim v) else trim v))
       \<and> (k \<notin> fst ` set form \<longrightarrow> kept (extractFields form) k = [])
       \<and> trimmed (kept (extractFields form) k)"
proof (intro conjI allI impI)
  fix i v
  assume h: "i < length form \<and> form ! i = (k, v) \<and> (\<forall>j<i. fst (form ! j) \<noteq> k)"
  then have "formGet form k = Some (snd (form ! i))"
    by (intro formGet_first) auto
  with h have "field form k = trim v"
    by (simp add: field_def orEmpty_def)
  with assms show "kept (extractFields form) k =
      (if k = ''formType'' \<or> k = ''email'' then toLowerCase (trim v) else trim v)"
    by (simp add: kept_extractFields)
next
  assume "k \<notin> fst ` set form"
  then have "field form k = []"
    by (simp add: formGet_absent field_def orEmpty_def trim_def)
  with assms show "kept (extractFields form) k = []"
    by (simp add: kept_extractFields toLowerCase_def)
next
  have "trimmed (field form k)"
    by (simp add: field_def trimmed_trim)
  with assms show "trimmed (kept (extractFields form) k)"
    by (simp add: kept_extractFields trimmed_toLowerCase)
qed

text \<open>
  C5 as stated fails: of two \<open>email\<close> entries the first is kept, not the last; and the
  value of \<open>preferredDate1\<close>, which the handler reads outside the extraction, goes into
  the auto-reply with its surrounding white space.
\<close>

theorem last_value_wins_counterexample:
  "formGet (rev formC5) ''email'' = Some ''second@x.com''
   \<and> email (extractFields formC5) = ''first@x.com''
   \<and> preferredDates formC5 = ['' 2026-05-01  at (no time)'']"
  by code_simp

theorem extracted_first_trimmed_witness:
  "''email'' \<in> set extractedKeys
   \<and> formC5 ! 0 = (''email'', '' First@x.com '')
   \<and> email (extractFields formC5) = ''first@x.com''
   \<and> trimmed (email (extractFields formC5))"
proof -
  have k: "''email'' \<in> set extractedKeys" by (simp add: extractedKeys_def)
  have i: "0 < length formC5 \<and> formC5 ! 0 = (''email'', '' First@x.com '')
           \<and> (\<forall>j<0. fst (formC5 ! j) \<noteq> ''email'')"
    by (simp add: formC5_def)
  have e: "kept (extractFields formC5) ''email'' = email (extractFields formC5)"
    by (simp add: kept_def)
  have t: "toLowerCase (trim '' First@x.com '') = ''first@x.com''" by code_simp
  note c5 = extracted_first_trimmed [OF k, of formC5]
  from c5 [THEN conjunct1, rule_format, OF i]
  have v: "kept (extractFields formC5) ''email'' = toLowerCase (trim '' First@x.com '')"
    by simp
  from c5 have "trimmed (kept (extractFields formC5) ''email'')"
    by blast
  with k i e t v show ?thesis by simp
qed

subsection \<open>Content negotiation\<close>

lemma map_of_rev_absent: "k \<notin> fst ` set xs \<Longrightarrow> map_of (rev xs) k = None"
  by (simp add: map_of_eq_None_iff)

lemma respond_error:
  "''ok'' \<notin> fst ` set extra \<Longrightarrow> isErrorJson (respond wj st (errorBody code extra) msg)"
  by (simp add: isErrorJson_def respond_def json_def html_def errorBody_def map_of_append
        map_add_def map_of_rev_absent)

lemma respond_error_details:
  "isErrorJson (respond wj st (errorBody code (optMember ''details'' v)) msg)"
  by (rule respond_error) (cases v; simp add: optMember_def)

lemma successResponse_no_json: "isErrorJson successResponse"
  by (simp add: isErrorJson_def successResponse_def)

lemma dispatchStage_json:
  "isErrorJson (fst (dispatchStage w wj req env form f ipAddr calls))"
  by (simp add: dispatchStage_def Let_def respond_error respond_error_details
        successResponse_no_json)

lemma challengeStage_json:
  "isErrorJson (fst (challengeStage w wj req env form f))"
  by (simp add: challengeStage_def Let_def respond_error_details dispatchStage_json)

lemma validate_json: "validate wj f = Some r \<Longrightarrow> isErrorJson r"
  by (auto simp: validate_def respond_error split: if_splits)

lemma no_json_success_body: "isErrorJson (fst (onRequestPost w ctx))"
proof (cases "ctx_env ctx")
  case None
  then show ?thesis
    by (simp add: onRequestPost_def tryBody_def serverError_def isErrorJson_def)
next
  case (Some env)
  have "isErrorJson (fst (handle w ctx env))"
    by (auto simp: handle_def Let_def respond_error challengeStage_json validate_json
          split: option.splits)
  with Some show ?thesis by (simp add: onRequestPost_env)
qed

text \<open>
  C1 (the code departs from the claim). The header comment of the file promises JSON
  when the Accept header asks for it, and every error path answers through \<open>respond\<close>;
  the success path does not. A completed request that asks for \<open>application/json\<close> is
  answered with the redirect 303 and no body; by \<open>no_json_success_body\<close> no request at
  all is answered with a JSON success body.
\<close>

theorem completed_json_request_redirected:
  "wantsJson ctxC1
   \<and> fst (onRequestPost worldOk ctxC1)
       = Response 303 [(''Location'', ''/?submitted=success'')] NoBody"
  by code_simp





text \<open>
  The outer \<open>catch\<close> does not go through \<open>respond\<close>. It is reached only on a context
  without \<open>env\<close>, which the Pages runtime does not pass, and answers there with a JSON
  body that holds the exception message.
\<close>

lemma catch_without_env:
  "\<not> wantsJson ctxNoEnv
   \<and> fst (onRequestPost worldOk ctxNoEnv)
       = Response 500 [(''Content-Type'', ''application/json; charset=utf-8'')]
           (JsonBody (JObj
              [ (''ok'', JBool False), (''error'', JStr ''server_error''),
                (''details'',
                 JStr (''Cannot read properties of undefined (reading '' @ [CHR 0x27]
                       @ ''TURNSTILE_SECRET_KEY'' @ [CHR 0x27] @ '')'')) ]))"
  by code_simp



end
